theory Spec2Isabelle
  imports Main
begin

section \<open>Operations and the transform engine (src/utils/collaboration.js, OperationalTransform)\<close>

text \<open>
  An operation is the object a client sends in a \<^verbatim>\<open>document-operation\<close> event. The fields the
  transform engine reads are listed; every other field of the object (\<^verbatim>\<open>userId\<close>,
  \<^verbatim>\<open>timestamp\<close>, \<^verbatim>\<open>id\<close>) lives in the extension part of the record scheme, which the object
  spread \<^verbatim>\<open>{...op2, position: p}\<close> carries over as a record update does. Numbers are
  integers, strings are lists of characters (one \<open>char\<close> per code unit), \<^verbatim>\<open>type\<close> is the
  string the code compares with \<^verbatim>\<open>===\<close>.
\<close>

record operation =
  type :: string
  position :: int
  content :: string
  length_op :: int
  oldLength :: int

text \<open>
  \<^verbatim>\<open>String.prototype.slice(start, end)\<close>: a negative index counts from the end, every index
  is clamped into \<open>0..len\<close>, and an empty range gives the empty string. It never throws.
  \<open>None\<close> as the end stands for the omitted second argument.
\<close>

definition slice_index :: "nat \<Rightarrow> int \<Rightarrow> nat" where
  "slice_index len i = (if i < 0 then nat (max (int len + i) 0) else min (nat i) len)"

definition slice :: "string \<Rightarrow> int \<Rightarrow> int option \<Rightarrow> string" where
  "slice s start end =
     (let len = length s;
          from = slice_index len start;
          to = (case end of None \<Rightarrow> len | Some e \<Rightarrow> slice_index len e)
      in if to \<le> from then [] else take (to - from) (drop from s))"

text \<open>\<^verbatim>\<open>transformOperation(op1, op2)\<close>; \<open>None\<close> is the \<^verbatim>\<open>null\<close> of the overlapping-delete branch.\<close>

definition transformOperation ::
  "'a operation_scheme \<Rightarrow> 'b operation_scheme \<Rightarrow> 'b operation_scheme option" where
  "transformOperation op1 op2 =
     (if type op1 = ''insert'' \<and> type op2 = ''insert'' then
        (if position op1 \<le> position op2
         then Some (op2\<lparr>position := position op2 + int (length (content op1))\<rparr>)
         else Some op2)
      else if type op1 = ''delete'' \<and> type op2 = ''insert'' then
        (if position op1 < position op2
         then Some (op2\<lparr>position := max (position op1) (position op2 - length_op op1)\<rparr>)
         else Some op2)
      else if type op1 = ''insert'' \<and> type op2 = ''delete'' then
        (if position op1 \<le> position op2
         then Some (op2\<lparr>position := position op2 + int (length (content op1))\<rparr>)
         else Some op2)
      else if type op1 = ''delete'' \<and> type op2 = ''delete'' then
        (if position op1 < position op2
         then Some (op2\<lparr>position := max (position op1) (position op2 - length_op op1),
                        length_op := length_op op2\<rparr>)
         else if position op2 + length_op op2 \<le> position op1
         then Some (op2\<lparr>position := position op2, length_op := length_op op2\<rparr>)
         else None)
      else Some op2)"

text \<open>
  \<^verbatim>\<open>applyOperation(content, operation)\<close>. The \<^verbatim>\<open>try\<close> block holds only \<^verbatim>\<open>slice\<close> calls and
  string concatenation, which do not throw on a string and numbers, so the \<^verbatim>\<open>catch\<close> branch
  (return the content as it was) is never taken and the function always returns a string.
\<close>

definition applyOperation :: "string \<Rightarrow> 'a operation_scheme \<Rightarrow> string" where
  "applyOperation s opn =
     (if type opn = ''insert'' then
        slice s 0 (Some (position opn)) @ content opn @ slice s (position opn) None
      else if type opn = ''delete'' then
        slice s 0 (Some (position opn)) @ slice s (position opn + length_op opn) None
      else if type opn = ''replace'' then
        slice s 0 (Some (position opn)) @ content opn @ slice s (position opn + oldLength opn) None
      else s)"

text \<open>
  The sequence the convergence property speaks of: apply \<open>A\<close> to the base content, then apply
  \<open>transformOperation A B\<close>. \<open>None\<close> when the transform drops \<open>B\<close>.
\<close>

definition apply_then_transformed :: "string \<Rightarrow> operation \<Rightarrow> operation \<Rightarrow> string option" where
  "apply_then_transformed s A B =
     map_option (applyOperation (applyOperation s A)) (transformOperation A B)"

text \<open>Operation literals as a client writes them.\<close>

definition insert_op :: "int \<Rightarrow> string \<Rightarrow> operation" where
  "insert_op p c = \<lparr>type = ''insert'', position = p, content = c, length_op = 0, oldLength = 0\<rparr>"

definition delete_op :: "int \<Rightarrow> int \<Rightarrow> operation" where
  "delete_op p n = \<lparr>type = ''delete'', position = p, content = [], length_op = n, oldLength = 0\<rparr>"

definition replace_op :: "int \<Rightarrow> int \<Rightarrow> string \<Rightarrow> operation" where
  "replace_op p n c = \<lparr>type = ''replace'', position = p, content = c, length_op = 0, oldLength = n\<rparr>"


section \<open>Documents and the access check (models/Document.js, checkDocumentAccess)\<close>

text \<open>
  The paths of the document schema that the collaboration layer reads or writes.
  \<open>content_doc\<close> is \<^verbatim>\<open>document.content\<close>, \<open>currentVersion\<close> the schema's version number,
  \<open>owner_organization\<close> the populated \<^verbatim>\<open>document.owner.organization\<close>. Times are natural
  numbers.
\<close>

record share =
  user :: string
  isActive :: bool
  expiresAt :: "nat option"
  permission :: string

record document =
  content_doc :: string
  currentVersion :: int
  organization :: string
  owner :: string
  owner_organization :: "string option"
  status :: string
  visibility :: string
  sharedWith :: "share list"

text \<open>
  The values \<^verbatim>\<open>document.version\<close> takes: \<^verbatim>\<open>undefined\<close>, \<^verbatim>\<open>NaN\<close> or an integer. The
  schema declares \<^verbatim>\<open>currentVersion\<close> and \<^verbatim>\<open>versions\<close> and no path named \<^verbatim>\<open>version\<close>, and
  nothing else assigns that property, so on a document loaded from the collection
  \<^verbatim>\<open>document.version\<close> reads \<^verbatim>\<open>undefined\<close>. \<open>plus_one\<close> is \<^verbatim>\<open>x += 1\<close>:
  \<^verbatim>\<open>undefined + 1\<close> is \<^verbatim>\<open>NaN\<close>.
\<close>

datatype jsval = Undefined | NaN | Num int

definition version :: "document \<Rightarrow> jsval" where
  "version d = Undefined"

fun plus_one :: "jsval \<Rightarrow> jsval" where
  "plus_one (Num n) = Num (n + 1)"
| "plus_one Undefined = NaN"
| "plus_one NaN = NaN"

datatype access = NoAccess string | HasAccess document string "string option"

text \<open>\<^verbatim>\<open>permissionLevels[p] || 1\<close> with \<^verbatim>\<open>{ view: 1, comment: 2, edit: 3 }\<close>.\<close>

definition permissionLevel :: "string \<Rightarrow> nat" where
  "permissionLevel p = (if p = ''edit'' then 3 else if p = ''comment'' then 2 else 1)"

text \<open>
  \<^verbatim>\<open>checkDocumentAccess(userId, documentId, organizationId, permission)\<close> over the document
  collection \<open>docs\<close> at time \<open>now\<close>. The query of \<^verbatim>\<open>findOne\<close> selects by id, organization and
  a status other than deleted. A failing database call is not part of the model.
\<close>

definition checkDocumentAccess ::
  "(string \<rightharpoonup> document) \<Rightarrow> nat \<Rightarrow> string \<Rightarrow> string \<Rightarrow> string \<Rightarrow> string \<Rightarrow> access" where
  "checkDocumentAccess docs now userId documentId organizationId perm =
     (case docs documentId of
        None \<Rightarrow> NoAccess ''Document not found''
      | Some d \<Rightarrow>
          if organization d = organizationId \<and> status d \<noteq> ''deleted'' then
            if organization d \<noteq> organizationId
            then NoAccess ''Cross-organization access denied''
            else if (case owner_organization d of None \<Rightarrow> False | Some g \<Rightarrow> g \<noteq> organizationId)
            then NoAccess ''Document owner organization mismatch''
            else if owner d = userId then HasAccess d ''owner'' None
            else
              (case find (\<lambda>sh. user sh = userId \<and> isActive sh) (sharedWith d) of
                 None \<Rightarrow>
                   if visibility d = ''organization'' \<and> perm = ''view''
                   then HasAccess d ''viewer'' None
                   else NoAccess ''Access denied''
               | Some sharedAccess \<Rightarrow>
                   if (case expiresAt sharedAccess of None \<Rightarrow> False | Some e \<Rightarrow> e < now)
                   then NoAccess ''Access expired''
                   else if permissionLevel (permission sharedAccess) < permissionLevel perm
                   then NoAccess ''Insufficient permissions''
                   else HasAccess d ''collaborator'' (Some (permission sharedAccess)))
          else NoAccess ''Document not found'')"


section \<open>Server state: the global maps and the per-socket fields\<close>

text \<open>
  A socket carries the identity set by the authentication middleware and the fields the
  handlers assign (\<^verbatim>\<open>currentDocument\<close>, \<^verbatim>\<open>documentPermission\<close>); \<open>rooms\<close> is the set of
  document rooms the socket has joined. A JavaScript \<^verbatim>\<open>Set\<close> of user ids is a duplicate-free
  list in insertion order. \<open>pendingOperations\<close> maps a document to its queue, an array
  object: the map holds the array's address and \<open>arrays\<close> the contents at each address,
  since a running pass keeps the array it read after the map entry is deleted.
\<close>

record socket =
  userId :: string
  organizationId :: string
  currentDocument :: "string option"
  documentPermission :: "string option"
  rooms :: "string set"

record server =
  sockets :: "nat \<Rightarrow> socket"
  activeConnections :: "string \<rightharpoonup> nat"
  documentSessions :: "string \<rightharpoonup> string list"
  documentLocks :: "string \<rightharpoonup> string \<times> nat"
  userCursors :: "string \<rightharpoonup> (string \<rightharpoonup> int)"
  pendingOperations :: "string \<rightharpoonup> nat"
  arrays :: "nat \<Rightarrow> operation list"
  documents :: "string \<rightharpoonup> document"

record activeUser =
  au_id :: string
  au_permission :: "string option"
  au_cursor :: "int option"

text \<open>
  Outbound events. \<open>ToSocket k\<close> is \<^verbatim>\<open>socket.emit\<close> on socket \<open>k\<close>; \<open>ToRoom d k\<close> is
  \<^verbatim>\<open>socket.to(`document:${d}`).emit\<close> from socket \<open>k\<close>: every socket in the room of \<open>d\<close> but
  \<open>k\<close>. Payload fields that copy the user's name and e-mail are left out.
\<close>

datatype target = ToSocket nat | ToRoom string nat

datatype message =
    ErrorMsg string
  | DocumentJoined string string jsval "activeUser list" "string option"
  | UserJoined string "string option"
  | UserLeft string
  | CursorUpdate string int
  | DocumentUpdated string jsval

type_synonym emits = "(target \<times> message) list"

fun is_UserLeft :: "message \<Rightarrow> bool" where
  "is_UserLeft (UserLeft u) = True"
| "is_UserLeft m = False"

definition members :: "server \<Rightarrow> string \<Rightarrow> string list" where
  "members st d = (case documentSessions st d of None \<Rightarrow> [] | Some ms \<Rightarrow> ms)"

definition set_add :: "string list \<Rightarrow> string \<Rightarrow> string list" where
  "set_add xs x = (if x \<in> set xs then xs else xs @ [x])"

text \<open>\<^verbatim>\<open>io.on('connection')\<close>: \<^verbatim>\<open>activeConnections.set(socket.userId, socket)\<close>.\<close>

definition connection :: "nat \<Rightarrow> server \<Rightarrow> server \<times> emits" where
  "connection k st =
     (st\<lparr>activeConnections := (activeConnections st)(userId (sockets st k) \<mapsto> k)\<rparr>, [])"

text \<open>
  The \<^verbatim>\<open>join-document\<close> handler. A falsy \<^verbatim>\<open>documentId\<close> is the empty string. In the list of
  active users \<^verbatim>\<open>cursor || null\<close> turns a cursor at position 0 into \<^verbatim>\<open>null\<close>.
\<close>

definition join_document :: "nat \<Rightarrow> nat \<Rightarrow> string \<Rightarrow> server \<Rightarrow> server \<times> emits" where
  "join_document now k documentId st =
     (let sock = sockets st k in
      if documentId = [] then (st, [(ToSocket k, ErrorMsg ''Document ID required'')])
      else
        case checkDocumentAccess (documents st) now (userId sock) documentId
               (organizationId sock) ''view'' of
          NoAccess err \<Rightarrow> (st, [(ToSocket k, ErrorMsg err)])
        | HasAccess d role perm \<Rightarrow>
            let sock' = sock\<lparr>rooms := insert documentId (rooms sock),
                             currentDocument := Some documentId,
                             documentPermission := perm\<rparr>;
                ms = set_add (members st documentId) (userId sock);
                cs = (case userCursors st documentId of None \<Rightarrow> Map.empty | Some c \<Rightarrow> c);
                st' = st\<lparr>sockets := (sockets st)(k := sock'),
                         documentSessions := (documentSessions st)(documentId \<mapsto> ms),
                         userCursors := (userCursors st)(documentId \<mapsto> cs)\<rparr>;
                activeUsers = List.map_filter
                  (\<lambda>u. case activeConnections st' u of
                          None \<Rightarrow> None
                        | Some j \<Rightarrow> Some \<lparr>au_id = u,
                              au_permission = documentPermission (sockets st' j),
                              au_cursor = (case cs u of None \<Rightarrow> None
                                           | Some p \<Rightarrow> if p = 0 then None else Some p)\<rparr>) ms
            in (st', [(ToSocket k, DocumentJoined documentId (content_doc d) (version d)
                                     activeUsers perm),
                      (ToRoom documentId k, UserJoined (userId sock) perm)]))"

text \<open>
  The \<^verbatim>\<open>cursor-position\<close> handler. \<open>None\<close> is a \<^verbatim>\<open>position\<close> that is \<^verbatim>\<open>undefined\<close>. The handler
  reads neither \<^verbatim>\<open>socket.currentDocument\<close> nor the session's members and calls no access
  check: the only test is that the document has a cursor map.
\<close>

definition cursor_position :: "nat \<Rightarrow> string \<Rightarrow> int option \<Rightarrow> server \<Rightarrow> server \<times> emits" where
  "cursor_position k documentId pos st =
     (case pos of
        None \<Rightarrow> (st, [])
      | Some p \<Rightarrow>
          if documentId = [] then (st, [])
          else
            (case userCursors st documentId of
               None \<Rightarrow> (st, [])
             | Some cs \<Rightarrow>
                 (st\<lparr>userCursors :=
                       (userCursors st)(documentId \<mapsto> cs(userId (sockets st k) \<mapsto> p))\<rparr>,
                  [(ToRoom documentId k, CursorUpdate (userId (sockets st k)) p)])))"

text \<open>
  The block both \<^verbatim>\<open>leave-document\<close> and \<^verbatim>\<open>disconnect\<close> run: delete the user from the
  session, drop the session, its cursors and its lock when it is empty, then delete the
  user's cursor if the document still has a cursor map.
\<close>

definition remove_from_session :: "string \<Rightarrow> string \<Rightarrow> server \<Rightarrow> server" where
  "remove_from_session u documentId st =
     (let st1 =
        (case documentSessions st documentId of
           None \<Rightarrow> st
         | Some ms \<Rightarrow>
             if removeAll u ms = []
             then st\<lparr>documentSessions := (documentSessions st)(documentId := None),
                     userCursors := (userCursors st)(documentId := None),
                     documentLocks := (documentLocks st)(documentId := None)\<rparr>
             else st\<lparr>documentSessions := (documentSessions st)(documentId \<mapsto> removeAll u ms)\<rparr>)
      in case userCursors st1 documentId of
           None \<Rightarrow> st1
         | Some cs \<Rightarrow> st1\<lparr>userCursors := (userCursors st1)(documentId \<mapsto> cs(u := None))\<rparr>)"

definition leave_document :: "nat \<Rightarrow> string \<Rightarrow> server \<Rightarrow> server \<times> emits" where
  "leave_document k documentId st =
     (let sock = sockets st k in
      if documentId \<noteq> [] \<and> currentDocument sock = Some documentId then
        let st2 = remove_from_session (userId sock) documentId st;
            sock' = sock\<lparr>rooms := rooms sock - {documentId},
                             currentDocument := None,
                             documentPermission := None\<rparr>
        in (st2\<lparr>sockets := (sockets st2)(k := sock')\<rparr>,
            [(ToRoom documentId k, UserLeft (userId sock))])
      else (st, []))"

text \<open>
  The \<^verbatim>\<open>disconnect\<close> handler; the transport has taken the socket out of its rooms. Only
  \<^verbatim>\<open>socket.currentDocument\<close> is cleaned up.
\<close>

definition disconnect :: "nat \<Rightarrow> server \<Rightarrow> server \<times> emits" where
  "disconnect k st =
     (let sock = sockets st k;
          st0 = st\<lparr>activeConnections := (activeConnections st)(userId sock := None),
                   sockets := (sockets st)(k := sock\<lparr>rooms := {}\<rparr>)\<rparr>
      in case currentDocument sock of
           None \<Rightarrow> (st0, [])
         | Some documentId \<Rightarrow>
             if documentId = [] then (st0, [])
             else (remove_from_session (userId sock) documentId st0,
                   [(ToRoom documentId k, UserLeft (userId sock))]))"

datatype event =
    Connection nat
  | JoinDocument nat string
  | CursorPosition nat string "int option"
  | LeaveDocument nat string
  | Disconnect nat

fun handle :: "nat \<Rightarrow> event \<Rightarrow> server \<Rightarrow> server \<times> emits" where
  "handle now (Connection k) st = connection k st"
| "handle now (JoinDocument k d) st = join_document now k d st"
| "handle now (CursorPosition k d p) st = cursor_position k d p st"
| "handle now (LeaveDocument k d) st = leave_document k d st"
| "handle now (Disconnect k) st = disconnect k st"

fun run :: "nat \<Rightarrow> event list \<Rightarrow> server \<Rightarrow> server" where
  "run now [] st = st"
| "run now (e # es) st = run now es (fst (handle now e st))"

text \<open>The presence invariant for one document: every user with a cursor entry is a member.\<close>

definition cursors_within_members :: "server \<Rightarrow> string \<Rightarrow> bool" where
  "cursors_within_members st d =
     (case userCursors st d of None \<Rightarrow> True | Some cs \<Rightarrow> dom cs \<subseteq> set (members st d))"


text \<open>
  Every \<^verbatim>\<open>cursor-position\<close> event of the run comes from a user who is, at that moment, a
  member of the document it names.
\<close>

fun cursors_from_members :: "nat \<Rightarrow> event list \<Rightarrow> server \<Rightarrow> bool" where
  "cursors_from_members now [] st = True"
| "cursors_from_members now (e # es) st =
     ((case e of
         CursorPosition k d p \<Rightarrow> userId (sockets st k) \<in> set (members st d)
       | _ \<Rightarrow> True)
      \<and> cursors_from_members now es (fst (handle now e st)))"


section \<open>The reconciliation pass (processPendingOperations)\<close>

text \<open>
  What the two awaited database calls of a pass do: \<open>find_fails\<close> and \<open>save_fails\<close> hold the
  message of the error \<^verbatim>\<open>Document.findById\<close> or \<^verbatim>\<open>document.save\<close> rejects with, \<open>None\<close> when
  the call succeeds.
\<close>

record db_faults =
  find_fails :: "string option"
  save_fails :: "string option"

definition no_faults :: db_faults where
  "no_faults = \<lparr>find_fails = None, save_fails = None\<rparr>"

datatype pass_result = Success string jsval | Failure string

text \<open>
  The inner loop \<^verbatim>\<open>for (j = 0; j < i; j++)\<close>: \<open>js\<close> is the list of the indices still to visit;
  an index beyond the processed operations reads \<^verbatim>\<open>undefined\<close> and is skipped; \<^verbatim>\<open>null\<close> from
  the transform breaks the loop.
\<close>

fun transformAgainst :: "operation list \<Rightarrow> nat list \<Rightarrow> operation \<Rightarrow> operation option" where
  "transformAgainst processedOps [] t = Some t"
| "transformAgainst processedOps (j # js) t =
     (if j < length processedOps
      then (case transformOperation (processedOps ! j) t of
              None \<Rightarrow> None
            | Some t' \<Rightarrow> transformAgainst processedOps js t')
      else transformAgainst processedOps js t)"

text \<open>
  The outer loop over \<^verbatim>\<open>operations\<close> from index \<open>i\<close> on, with the content and the processed
  operations so far.
\<close>

fun applyPending ::
  "operation list \<Rightarrow> nat \<Rightarrow> string \<Rightarrow> operation list \<Rightarrow> string \<times> operation list" where
  "applyPending [] i s processedOps = (s, processedOps)"
| "applyPending (currentOp # rest) i s processedOps =
     (case transformAgainst processedOps [0..<i] currentOp of
        None \<Rightarrow> applyPending rest (Suc i) s processedOps
      | Some t \<Rightarrow> applyPending rest (Suc i) (applyOperation s t) (processedOps @ [t]))"

text \<open>
  A pass has two awaits, \<^verbatim>\<open>Document.findById\<close> and \<^verbatim>\<open>document.save\<close>, where other handlers
  and timer callbacks run; it is three steps.

  \<open>pass_start\<close>, up to the first await: read the queue of the document
  (\<^verbatim>\<open>pendingOperations.get(documentId) || []\<close>); \<open>None\<close> is the bare \<^verbatim>\<open>return\<close> on length 0,
  \<open>Some r\<close> goes on to \<^verbatim>\<open>findById\<close> holding the array at \<open>r\<close>.
\<close>

definition pass_start :: "string \<Rightarrow> server \<Rightarrow> nat option" where
  "pass_start documentId st =
     (case pendingOperations st documentId of
        None \<Rightarrow> None
      | Some r \<Rightarrow> if length (arrays st r) = 0 then None else Some r)"

text \<open>
  \<open>pass_found\<close>, from the answer of \<^verbatim>\<open>findById\<close> to the call of \<^verbatim>\<open>save\<close>: \<open>Inl res\<close> when
  the pass returns \<open>res\<close> here (\<open>None\<close> is \<^verbatim>\<open>undefined\<close>, for a document that is not found),
  otherwise \<open>Inr\<close> of the loaded document with its new content and of the value assigned
  to \<^verbatim>\<open>document.version\<close>. The loop runs over the array as it is now. The assignment of
  \<^verbatim>\<open>updatedAt\<close> is left out.
\<close>

definition pass_found ::
  "db_faults \<Rightarrow> string \<Rightarrow> nat \<Rightarrow> server \<Rightarrow> pass_result option + document \<times> jsval" where
  "pass_found io documentId r st =
     (case find_fails io of
        Some err \<Rightarrow> Inl (Some (Failure err))
      | None \<Rightarrow>
          (case documents st documentId of
             None \<Rightarrow> Inl None
           | Some d \<Rightarrow>
               Inr (d\<lparr>content_doc := fst (applyPending (arrays st r) 0 (content_doc d) [])\<rparr>,
                    plus_one (version d))))"

text \<open>
  \<open>pass_saved\<close>, from the answer of \<^verbatim>\<open>save\<close> on: the document is stored with its new
  content (the value of \<^verbatim>\<open>document.version\<close> is no path of the schema and is not stored),
  the map entry of the queue is deleted and the result is returned.
\<close>

definition pass_saved ::
  "db_faults \<Rightarrow> string \<Rightarrow> document \<Rightarrow> jsval \<Rightarrow> server \<Rightarrow> pass_result option \<times> server" where
  "pass_saved io documentId d' v st =
     (case save_fails io of
        Some err \<Rightarrow> (Some (Failure err), st)
      | None \<Rightarrow>
          (Some (Success (content_doc d') v),
           st\<lparr>documents := (documents st)(documentId \<mapsto> d'),
              pendingOperations := (pendingOperations st)(documentId := None)\<rparr>))"

text \<open>
  \<^verbatim>\<open>processPendingOperations(documentId)\<close> when nothing else runs during its two awaits: the
  three steps one after the other.
\<close>

definition processPendingOperations ::
  "db_faults \<Rightarrow> string \<Rightarrow> server \<Rightarrow> pass_result option \<times> server" where
  "processPendingOperations io documentId st =
     (case pass_start documentId st of
        None \<Rightarrow> (None, st)
      | Some r \<Rightarrow>
          (case pass_found io documentId r st of
             Inl res \<Rightarrow> (res, st)
           | Inr (d', v) \<Rightarrow> pass_saved io documentId d' v st))"

text \<open>
  The callback of the 500 ms timer that the \<^verbatim>\<open>document-operation\<close> handler of socket \<open>k\<close>
  sets. \<open>callback_emits\<close> is what it does with the result of its pass
  (\<^verbatim>\<open>if (result && result.success)\<close>): emit \<^verbatim>\<open>document-updated\<close> to the room and to the
  socket itself. \<open>debounced_pass\<close> is the whole callback when nothing else runs during the
  awaits of its pass.
\<close>

definition callback_emits :: "nat \<Rightarrow> string \<Rightarrow> pass_result option \<Rightarrow> emits" where
  "callback_emits k documentId res =
     (case res of
        Some (Success newContent v) \<Rightarrow>
          [(ToRoom documentId k, DocumentUpdated newContent v),
           (ToSocket k, DocumentUpdated newContent v)]
      | Some (Failure err) \<Rightarrow> []
      | None \<Rightarrow> [])"

definition debounced_pass :: "db_faults \<Rightarrow> nat \<Rightarrow> string \<Rightarrow> server \<Rightarrow> server \<times> emits" where
  "debounced_pass io k documentId st =
     (case processPendingOperations io documentId st of
        (res, st') \<Rightarrow> (st', callback_emits k documentId res))"

text \<open>The content a pass result carries.\<close>

fun newContent :: "pass_result option \<Rightarrow> string option" where
  "newContent (Some (Success s v)) = Some s"
| "newContent (Some (Failure err)) = None"
| "newContent None = None"


section \<open>Concrete inputs\<close>

definition doc_of :: "string \<Rightarrow> string \<Rightarrow> int \<Rightarrow> document" where
  "doc_of u s v = \<lparr>content_doc = s, currentVersion = v, organization = ''org1'', owner = u,
     owner_organization = Some ''org1'', status = ''draft'', visibility = ''private'',
     sharedWith = []\<rparr>"

text \<open>
  Socket 1 is alice of organization org1; every other socket is mallory of organization
  org2. No socket has joined anything.
\<close>

definition two_sockets :: "nat \<Rightarrow> socket" where
  "two_sockets k =
     (if k = 1
      then \<lparr>userId = ''alice'', organizationId = ''org1'', currentDocument = None,
            documentPermission = None, rooms = {}\<rparr>
      else \<lparr>userId = ''mallory'', organizationId = ''org2'', currentDocument = None,
            documentPermission = None, rooms = {}\<rparr>)"

definition initial :: "(string \<rightharpoonup> document) \<Rightarrow> (string \<rightharpoonup> nat) \<Rightarrow> server" where
  "initial docs queue = \<lparr>sockets = two_sockets, activeConnections = Map.empty,
     documentSessions = Map.empty, documentLocks = Map.empty, userCursors = Map.empty,
     pendingOperations = queue, arrays = (\<lambda>r. []), documents = docs\<rparr>"

text \<open>
  The state with document D1 of alice at the given content, and the given operations pushed
  onto its queue, the array at address 0.
\<close>

definition queued :: "string \<Rightarrow> operation list \<Rightarrow> server" where
  "queued s ops =
     (initial [''D1'' \<mapsto> doc_of ''alice'' s 3] [''D1'' \<mapsto> 0])\<lparr>arrays := (\<lambda>r. [])(0 := ops)\<rparr>"

text \<open>Two private documents of alice, D1 and D2, both in org1.\<close>

definition alice_docs :: "string \<rightharpoonup> document" where
  "alice_docs = [''D1'' \<mapsto> doc_of ''alice'' ''abc'' 1, ''D2'' \<mapsto> doc_of ''alice'' ''xyz'' 1]"

text \<open>Both sockets are connected and alice has joined D1.\<close>

definition alice_joined :: server where
  "alice_joined =
     run 0 [Connection 1, Connection 2, JoinDocument 1 ''D1''] (initial alice_docs Map.empty)"

definition ten_inserts :: "operation list" where
  "ten_inserts = map (\<lambda>i. insert_op (int i) ''x'') [0..<10]"

definition hello_queue :: "operation list" where
  "hello_queue = [insert_op 5 '' world'', insert_op 0 ''>> '']"


section \<open>Facts about slicing and splicing\<close>

lemma slice_prefix: "0 \<le> p \<Longrightarrow> slice s 0 (Some p) = take (nat p) s"
  by (auto simp: slice_def slice_index_def Let_def min_def)

lemma slice_suffix: "0 \<le> p \<Longrightarrow> slice s p None = drop (nat p) s"
  by (auto simp: slice_def slice_index_def Let_def min_def)

lemma slice_suffix_beyond: "int (length s) \<le> p \<Longrightarrow> slice s p None = []"
  by (auto simp: slice_def slice_index_def Let_def min_def)

lemma applyOperation_insert:
  "type A = ''insert'' \<Longrightarrow> 0 \<le> position A \<Longrightarrow>
   applyOperation s A = take (nat (position A)) s @ content A @ drop (nat (position A)) s"
  by (simp add: applyOperation_def slice_prefix slice_suffix)

lemma insert_splice_commute:
  assumes "p < q" "q \<le> length s"
  shows "take (q + length x) (take p s @ x @ drop p s) @ y
           @ drop (q + length x) (take p s @ x @ drop p s)
       = take p (take q s @ y @ drop q s) @ x @ drop p (take q s @ y @ drop q s)"
proof -
  have a: "take (q + length x) (take p s @ x @ drop p s) = take p s @ x @ take (q - p) (drop p s)"
    using assms by (simp add: min_def)
  have b: "drop (q + length x) (take p s @ x @ drop p s) = drop q s"
    using assms by (simp add: min_def)
  have c: "take p (take q s @ y @ drop q s) = take p s"
    using assms by (simp add: min_def)
  have d: "drop p (take q s @ y @ drop q s) = drop p (take q s) @ y @ drop q s"
    using assms by (simp add: min_def)
  have e: "take (q - p) (drop p s) = drop p (take q s)"
    using assms by (simp add: drop_take)
  show ?thesis unfolding a b c d e by simp
qed

text \<open>Two inserts, the first strictly to the left of the second: both orders agree.\<close>

lemma inserts_converge_lt:
  assumes "type A = ''insert''" "type B = ''insert''"
    "0 \<le> position A" "position A < position B" "position B \<le> int (length s)"
  shows "apply_then_transformed s A B = apply_then_transformed s B A"
    and "apply_then_transformed s A B \<noteq> None"
proof -
  let ?B' = "B\<lparr>position := position B + int (length (content A))\<rparr>"
  have tAB: "transformOperation A B = Some ?B'"
    using assms by (simp add: transformOperation_def)
  have tBA: "transformOperation B A = Some A"
    using assms by (simp add: transformOperation_def)
  have pq: "nat (position A) < nat (position B)" "nat (position B) \<le> length s"
    using assms by auto
  have n: "nat (position B + int (length (content A))) = nat (position B) + length (content A)"
    using assms by simp
  have l: "applyOperation s A = take (nat (position A)) s @ content A @ drop (nat (position A)) s"
    using assms by (simp add: applyOperation_insert)
  have r: "applyOperation s B = take (nat (position B)) s @ content B @ drop (nat (position B)) s"
    using assms by (simp add: applyOperation_insert)
  have l2: "applyOperation t ?B'
      = take (nat (position B) + length (content A)) t @ content B
          @ drop (nat (position B) + length (content A)) t" for t
    using assms by (simp add: applyOperation_insert n)
  have r2: "applyOperation t A
      = take (nat (position A)) t @ content A @ drop (nat (position A)) t" for t
    using assms by (simp add: applyOperation_insert)
  have "applyOperation (applyOperation s A) ?B' = applyOperation (applyOperation s B) A"
    unfolding l2 r2 unfolding l r by (rule insert_splice_commute[OF pq])
  then show "apply_then_transformed s A B = apply_then_transformed s B A"
    by (simp add: apply_then_transformed_def tAB tBA)
  show "apply_then_transformed s A B \<noteq> None"
    by (simp add: apply_then_transformed_def tAB)
qed


section \<open>Convergence of concurrent inserts\<close>

text \<open>Two inserts at one position: the operation applied first comes first in the text.\<close>

lemma inserts_tie:
  assumes "type A = ''insert''" "type B = ''insert''"
    "0 \<le> position A" "position A \<le> int (length s)" "position B = position A"
  shows "apply_then_transformed s A B
         = Some (take (nat (position A)) s @ content A @ content B @ drop (nat (position A)) s)"
proof -
  let ?p = "nat (position A)"
  let ?B' = "B\<lparr>position := position B + int (length (content A))\<rparr>"
  have tAB: "transformOperation A B = Some ?B'"
    using assms by (simp add: transformOperation_def)
  have p: "?p \<le> length s" using assms by auto
  have n: "nat (position A + int (length (content A))) = ?p + length (content A)"
    using assms by simp
  have l: "applyOperation s A = take ?p s @ content A @ drop ?p s"
    using assms by (simp add: applyOperation_insert)
  have l2: "applyOperation t ?B'
      = take (?p + length (content A)) t @ content B @ drop (?p + length (content A)) t" for t
    using assms by (simp add: applyOperation_insert n)
  have a: "take (?p + length (content A)) (take ?p s @ content A @ drop ?p s)
           = take ?p s @ content A"
    using p by (simp add: min_def)
  have b: "drop (?p + length (content A)) (take ?p s @ content A @ drop ?p s) = drop ?p s"
    using p by (simp add: min_def)
  have "applyOperation (applyOperation s A) ?B'
        = take ?p s @ content A @ content B @ drop ?p s"
    unfolding l2 l a b by simp
  then show ?thesis by (simp add: apply_then_transformed_def tAB)
qed

text \<open>
  C1, as the specification states it, fails: for A = insert "X" at 0 and B = insert "Y" at 0
  on the base "ab", A followed by \<open>transformOperation A B\<close> gives "XYab", and B followed by
  \<open>transformOperation B A\<close> gives "YXab".
\<close>

theorem insert_tie_diverges:
  "apply_then_transformed ''ab'' (insert_op 0 ''X'') (insert_op 0 ''Y'') = Some ''XYab''
   \<and> apply_then_transformed ''ab'' (insert_op 0 ''Y'') (insert_op 0 ''X'') = Some ''YXab''
   \<and> apply_then_transformed ''ab'' (insert_op 0 ''X'') (insert_op 0 ''Y'')
       \<noteq> apply_then_transformed ''ab'' (insert_op 0 ''Y'') (insert_op 0 ''X'')"
  by (simp add: apply_then_transformed_def insert_op_def transformOperation_def
      applyOperation_def slice_def slice_index_def Let_def)

text \<open>
  C1, amended: for two inserts A and B at positions within the base content, neither
  transform drops its operation, and applying A then \<open>transformOperation A B\<close> yields the
  same string as applying B then \<open>transformOperation B A\<close> exactly when the positions differ
  or the two contents commute under concatenation. At one common position \<open>p\<close> the first
  sequence yields the base up to \<open>p\<close>, the content of A, the content of B and the rest of
  the base: the operation applied first comes first.
\<close>

theorem concurrent_inserts_converge_iff:
  assumes "type A = ''insert''" and "type B = ''insert''"
    and "0 \<le> position A" and "position A \<le> int (length s)"
    and "0 \<le> position B" and "position B \<le> int (length s)"
  shows "apply_then_transformed s A B \<noteq> None
       \<and> apply_then_transformed s B A \<noteq> None
       \<and> (apply_then_transformed s A B = apply_then_transformed s B A
            \<longleftrightarrow> position A \<noteq> position B \<or> content A @ content B = content B @ content A)
       \<and> (position A = position B \<longrightarrow>
            apply_then_transformed s A B
            = Some (take (nat (position A)) s @ content A @ content B
                      @ drop (nat (position A)) s))"
proof (cases "position A = position B")
  case True
  have ab: "apply_then_transformed s A B
      = Some (take (nat (position A)) s @ content A @ content B @ drop (nat (position A)) s)"
    using inserts_tie[OF assms(1,2,3,4)] True by simp
  have ba: "apply_then_transformed s B A
      = Some (take (nat (position A)) s @ content B @ content A @ drop (nat (position A)) s)"
    using inserts_tie[OF assms(2,1,5,6)] True by simp
  show ?thesis unfolding ab ba using True by simp
next
  case False
  have conv: "apply_then_transformed s A B = apply_then_transformed s B A"
    and ne: "apply_then_transformed s A B \<noteq> None"
  proof -
    show "apply_then_transformed s A B = apply_then_transformed s B A"
    proof (cases "position A < position B")
      case True
      from inserts_converge_lt(1)[OF assms(1,2,3) True assms(6)] show ?thesis .
    next
      case ge: False
      then have lt: "position B < position A" using False by simp
      from inserts_converge_lt(1)[OF assms(2,1,5) lt assms(4)] show ?thesis by simp
    qed
    show "apply_then_transformed s A B \<noteq> None"
      using assms(1,2) by (simp add: apply_then_transformed_def transformOperation_def)
  qed
  show ?thesis using conv ne False by simp
qed

theorem concurrent_inserts_converge_iff_witness:
  "apply_then_transformed ''ab'' (insert_op 0 ''X'') (insert_op 1 ''Y'')
     = apply_then_transformed ''ab'' (insert_op 1 ''Y'') (insert_op 0 ''X'')
   \<and> apply_then_transformed ''ab'' (insert_op 0 ''XX'') (insert_op 0 ''X'')
     = apply_then_transformed ''ab'' (insert_op 0 ''X'') (insert_op 0 ''XX'')
   \<and> apply_then_transformed ''ab'' (insert_op 0 ''X'') (insert_op 0 ''Y'')
     \<noteq> apply_then_transformed ''ab'' (insert_op 0 ''Y'') (insert_op 0 ''X'')
   \<and> apply_then_transformed ''ab'' (insert_op 0 ''X'') (insert_op 0 ''Y'') = Some ''XYab''"
proof -
  have f: "type (insert_op p c) = ''insert''" "position (insert_op p c) = p"
    "content (insert_op p c) = c" for p c
    by (simp_all add: insert_op_def)
  have a: "apply_then_transformed ''ab'' (insert_op 0 ''X'') (insert_op 1 ''Y'')
     = apply_then_transformed ''ab'' (insert_op 1 ''Y'') (insert_op 0 ''X'')"
    using concurrent_inserts_converge_iff
      [of "insert_op 0 ''X''" "insert_op 1 ''Y''" "''ab''"]
    by (simp add: f)
  have b: "apply_then_transformed ''ab'' (insert_op 0 ''XX'') (insert_op 0 ''X'')
     = apply_then_transformed ''ab'' (insert_op 0 ''X'') (insert_op 0 ''XX'')"
    using concurrent_inserts_converge_iff
      [of "insert_op 0 ''XX''" "insert_op 0 ''X''" "''ab''"]
    by (simp add: f)
  have c: "apply_then_transformed ''ab'' (insert_op 0 ''X'') (insert_op 0 ''Y'')
     \<noteq> apply_then_transformed ''ab'' (insert_op 0 ''Y'') (insert_op 0 ''X'')"
    using concurrent_inserts_converge_iff
      [of "insert_op 0 ''X''" "insert_op 0 ''Y''" "''ab''"]
    by (auto simp: f)
  have d: "apply_then_transformed ''ab'' (insert_op 0 ''X'') (insert_op 0 ''Y'') = Some ''XYab''"
    using concurrent_inserts_converge_iff
      [of "insert_op 0 ''X''" "insert_op 0 ''Y''" "''ab''"]
    by (simp add: f)
  show ?thesis using a b c d by simp
qed


section \<open>Operations that reach beyond the content\<close>

text \<open>
  C2, as the specification states it, fails: deleting length 5 at position 0 from the
  3-character content "abc" is not rejected and the content does not stay as it was; the
  result is the empty string. \<open>applyOperation\<close> has no error result at all.
\<close>

theorem delete_beyond_end_not_rejected:
  "applyOperation ''abc'' (delete_op 0 5) = [] \<and> applyOperation ''abc'' (delete_op 0 5) \<noteq> ''abc''"
  by (simp add: delete_op_def applyOperation_def slice_def slice_index_def Let_def)

text \<open>
  C2, amended: \<open>applyOperation\<close> never rejects. A delete or replace at a position \<open>\<ge> 0\<close>
  whose range ends beyond the content is clamped to the end of the content: the result is
  the content before the position, followed for a replace by the operation's content.
\<close>

theorem applyOperation_clamps_out_of_range:
  assumes "0 \<le> position opn"
    and "type opn = ''delete'' \<or> type opn = ''replace''"
    and "int (length s)
           < position opn + (if type opn = ''delete'' then length_op opn else oldLength opn)"
  shows "applyOperation s opn
         = take (nat (position opn)) s @ (if type opn = ''replace'' then content opn else [])"
  using assms
  by (auto simp: applyOperation_def slice_prefix slice_suffix_beyond)

theorem applyOperation_clamps_out_of_range_witness:
  "applyOperation ''abc'' (delete_op 1 5) = ''a''
   \<and> applyOperation ''abc'' (replace_op 1 5 ''Z'') = ''aZ''"
proof -
  have d: "applyOperation ''abc'' (delete_op 1 5) = take (nat 1) ''abc'' @ []"
    using applyOperation_clamps_out_of_range [of "delete_op 1 5" "''abc''"]
    by (simp add: delete_op_def)
  have r: "applyOperation ''abc'' (replace_op 1 5 ''Z'') = take (nat 1) ''abc'' @ ''Z''"
    using applyOperation_clamps_out_of_range [of "replace_op 1 5 ''Z''" "''abc''"]
    by (simp add: replace_op_def)
  show ?thesis using d r by simp
qed


section \<open>Overlapping deletes\<close>

text \<open>When \<open>transformOperation\<close> drops a delete transformed against a delete.\<close>

lemma transformOperation_delete_delete_None:
  "type op1 = ''delete'' \<Longrightarrow> type op2 = ''delete'' \<Longrightarrow>
   transformOperation op1 op2 = None
   \<longleftrightarrow> position op2 \<le> position op1 \<and> position op1 < position op2 + length_op op2"
  by (auto simp: transformOperation_def)

text \<open>
  C4 at a failing input: op1 deletes [0, 3) and op2 deletes [1, 4); the ranges overlap with
  \<open>position op1 < position op2 < position op1 + length op1\<close>. The transform does not return
  \<open>None\<close>: it returns op2 moved to position 0 with its length 3 unchanged, and on
  "abcdef" the pair removes all six characters, where op2 was to remove "bcd" only.
\<close>

theorem overlapping_delete_not_dropped:
  "transformOperation (delete_op 0 3) (delete_op 1 3) = Some (delete_op 0 3)
   \<and> applyOperation (applyOperation ''abcdef'' (delete_op 0 3)) (delete_op 0 3) = []
   \<and> applyOperation ''abcdef'' (delete_op 1 3) = ''aef''"
  by (simp add: delete_op_def transformOperation_def applyOperation_def slice_def
      slice_index_def Let_def)


section \<open>The transform changes the position only\<close>

text \<open>
  C9: whenever \<open>transformOperation op1 op2\<close> returns an operation, that operation is op2 with
  at most its position changed; type, content, length, oldLength and every other field
  (the extension part of the record) are those of op2.
\<close>

theorem transformOperation_changes_position_only:
  "transformOperation op1 op2 = Some r \<Longrightarrow> r = op2\<lparr>position := position r\<rparr>"
  by (auto simp: transformOperation_def split: if_splits)

theorem transformOperation_changes_position_only_witness:
  "transformOperation (delete_op 0 2) (insert_op 5 ''z'') = Some (insert_op 3 ''z'')
   \<and> insert_op 3 ''z'' = (insert_op 5 ''z'')\<lparr>position := position (insert_op 3 ''z'')\<rparr>"
proof -
  have h: "transformOperation (delete_op 0 2) (insert_op 5 ''z'') = Some (insert_op 3 ''z'')"
    by (simp add: delete_op_def insert_op_def transformOperation_def)
  from transformOperation_changes_position_only [OF h] h show ?thesis by simp
qed



section \<open>The reconciliation pass\<close>

text \<open>The value a pass assigns to \<^verbatim>\<open>document.version\<close> and returns is never a number.\<close>

lemma pass_found_version: "pass_found io d r st = Inr (d', v) \<Longrightarrow> v = NaN"
  by (auto simp: pass_found_def version_def split: option.splits)

lemma pass_found_returns:
  "pass_found io d r st = Inl res \<Longrightarrow> res = None \<or> (\<exists>err. res = Some (Failure err))"
  by (auto simp: pass_found_def split: option.splits)

lemma pass_version_NaN:
  "fst (processPendingOperations io d st) = Some (Success s v) \<Longrightarrow> v = NaN"
  by (auto simp: processPendingOperations_def pass_saved_def
      split: option.splits sum.splits dest: pass_found_version pass_found_returns)

text \<open>
  C10: when the pending queue of a document is absent or empty, a pass returns at once, before
  its first await, with no result and the state as it was: content, stored document and
  queue are untouched, nothing is saved, and the timer callback emits nothing. This holds
  whatever the database would do.
\<close>

theorem empty_pass_is_noop:
  "pendingOperations st d = None \<or> (pendingOperations st d = Some r \<and> arrays st r = []) \<Longrightarrow>
   pass_start d st = None
   \<and> processPendingOperations io d st = (None, st)
   \<and> debounced_pass io k d st = (st, [])"
  by (auto simp: pass_start_def processPendingOperations_def debounced_pass_def
      callback_emits_def)

theorem empty_pass_is_noop_witness:
  "pendingOperations (initial alice_docs Map.empty) ''D1'' = None
   \<and> processPendingOperations no_faults ''D1'' (initial alice_docs Map.empty)
       = (None, initial alice_docs Map.empty)
   \<and> debounced_pass no_faults 1 ''D1'' (initial alice_docs Map.empty)
       = (initial alice_docs Map.empty, [])
   \<and> pendingOperations (queued ''abc'' []) ''D1'' = Some 0
   \<and> arrays (queued ''abc'' []) 0 = []
   \<and> processPendingOperations no_faults ''D1'' (queued ''abc'' []) = (None, queued ''abc'' [])"
proof -
  have h: "pendingOperations (initial alice_docs Map.empty) ''D1'' = None"
    by (simp add: initial_def)
  have e: "pendingOperations (queued ''abc'' []) ''D1'' = Some 0"
    and f: "arrays (queued ''abc'' []) 0 = []"
    by (simp_all add: queued_def initial_def)
  show ?thesis
    using h e f
      empty_pass_is_noop [of "initial alice_docs Map.empty" "''D1''" 0 no_faults 1]
      empty_pass_is_noop [of "queued ''abc'' []" "''D1''" 0 no_faults 1]
    by simp
qed

text \<open>
  C8: base content "hello", queue A = insert " world" at 5 followed by B = insert ">> " at 0.
  The transform of B against the committed A leaves B as it is (5 \<open>\<le>\<close> 0 is false), the pass
  applies A and then B, and the content it returns and stores is ">> hello world".
\<close>

theorem hello_world_scenario:
  "transformOperation (insert_op 5 '' world'') (insert_op 0 ''>> '') = Some (insert_op 0 ''>> '')
   \<and> applyPending hello_queue 0 ''hello'' []
       = (''>> hello world'', [insert_op 5 '' world'', insert_op 0 ''>> ''])
   \<and> newContent (fst (processPendingOperations no_faults ''D1'' (queued ''hello'' hello_queue)))
       = Some ''>> hello world''
   \<and> map_option content_doc
        (documents (snd (processPendingOperations no_faults ''D1''
                           (queued ''hello'' hello_queue))) ''D1'')
       = Some ''>> hello world''"
  by (simp add: processPendingOperations_def pass_start_def pass_found_def pass_saved_def
      queued_def initial_def hello_queue_def doc_of_def no_faults_def insert_op_def
      transformOperation_def applyOperation_def slice_def slice_index_def Let_def)

text \<open>
  C3 at a failing input: a timer callback whose pass drains a queue of ten inserts, none of
  them dropped, on a document whose \<^verbatim>\<open>currentVersion\<close> is 3. The \<^verbatim>\<open>document-updated\<close> it
  emits carries the version \<^verbatim>\<open>NaN\<close>, not a number ten above the version before the pass, and
  the stored \<^verbatim>\<open>currentVersion\<close> is still 3.
\<close>

theorem ten_inserts_version_not_a_number:
  "length ten_inserts = 10
   \<and> length (snd (applyPending ten_inserts 0 ''hello'' [])) = 10
   \<and> snd (debounced_pass no_faults 1 ''D1'' (queued ''hello'' ten_inserts))
       = [(ToRoom ''D1'' 1, DocumentUpdated ''xhxexlxlxoxxxxx'' NaN),
          (ToSocket 1, DocumentUpdated ''xhxexlxlxoxxxxx'' NaN)]
   \<and> map_option currentVersion
        (documents (fst (debounced_pass no_faults 1 ''D1'' (queued ''hello'' ten_inserts)))
           ''D1'') = Some 3"
  by (simp add: debounced_pass_def callback_emits_def processPendingOperations_def
      pass_start_def pass_found_def pass_saved_def version_def queued_def initial_def
      ten_inserts_def doc_of_def no_faults_def insert_op_def transformOperation_def
      applyOperation_def slice_def slice_index_def Let_def upt_rec)

text \<open>
  Two timer callbacks of socket 1 on the queue of the hello scenario that overlap: each has
  started its pass and has its document before the \<^verbatim>\<open>save\<close> of the other answers. Both
  passes succeed and both callbacks emit \<^verbatim>\<open>document-updated\<close>; only a callback that starts
  after the first \<^verbatim>\<open>save\<close> has answered finds no queue.
\<close>

lemma overlapping_callbacks_both_emit:
  "pass_start ''D1'' (queued ''hello'' hello_queue) = Some 0
   \<and> pass_found no_faults ''D1'' 0 (queued ''hello'' hello_queue)
       = Inr (doc_of ''alice'' ''>> hello world'' 3, NaN)
   \<and> callback_emits 1 ''D1''
        (fst (pass_saved no_faults ''D1'' (doc_of ''alice'' ''>> hello world'' 3) NaN
                (queued ''hello'' hello_queue)))
       = [(ToRoom ''D1'' 1, DocumentUpdated ''>> hello world'' NaN),
          (ToSocket 1, DocumentUpdated ''>> hello world'' NaN)]
   \<and> callback_emits 1 ''D1''
        (fst (pass_saved no_faults ''D1'' (doc_of ''alice'' ''>> hello world'' 3) NaN
                (snd (pass_saved no_faults ''D1'' (doc_of ''alice'' ''>> hello world'' 3) NaN
                        (queued ''hello'' hello_queue)))))
       = [(ToRoom ''D1'' 1, DocumentUpdated ''>> hello world'' NaN),
          (ToSocket 1, DocumentUpdated ''>> hello world'' NaN)]
   \<and> pass_start ''D1''
        (snd (pass_saved no_faults ''D1'' (doc_of ''alice'' ''>> hello world'' 3) NaN
                (queued ''hello'' hello_queue))) = None"
  by (simp add: callback_emits_def pass_start_def pass_found_def pass_saved_def version_def
      queued_def initial_def hello_queue_def doc_of_def no_faults_def insert_op_def
      transformOperation_def applyOperation_def slice_def slice_index_def Let_def)

section \<open>Sessions, cursors and joins\<close>

text \<open>What the cursor handler does whenever the named document has a cursor map.\<close>

lemma cursor_position_unguarded:
  "d \<noteq> [] \<Longrightarrow> userCursors st d = Some cs \<Longrightarrow>
   cursor_position k d (Some p) st
     = (st\<lparr>userCursors := (userCursors st)(d \<mapsto> cs(userId (sockets st k) \<mapsto> p))\<rparr>,
        [(ToRoom d k, CursorUpdate (userId (sockets st k)) p)])"
  by (simp add: cursor_position_def)

text \<open>
  C5 at a failing input: alice (socket 1) joins her document D1; mallory (socket 2, another
  organization, never joined) sends \<^verbatim>\<open>cursor-position\<close> for D1. Afterwards D1 has a cursor
  entry for mallory while its only member is alice.
\<close>

theorem cursor_of_non_member_breaks_presence:
  "members (run 0 [Connection 1, Connection 2, JoinDocument 1 ''D1'',
                   CursorPosition 2 ''D1'' (Some 7)] (initial alice_docs Map.empty)) ''D1''
     = [''alice'']
   \<and> map_option (\<lambda>cs. cs ''mallory'')
        (userCursors (run 0 [Connection 1, Connection 2, JoinDocument 1 ''D1'',
                   CursorPosition 2 ''D1'' (Some 7)] (initial alice_docs Map.empty)) ''D1'')
     = Some (Some 7)
   \<and> \<not> cursors_within_members
        (run 0 [Connection 1, Connection 2, JoinDocument 1 ''D1'',
                CursorPosition 2 ''D1'' (Some 7)] (initial alice_docs Map.empty)) ''D1''"
  by (simp add: cursors_within_members_def members_def initial_def alice_docs_def doc_of_def
      two_sockets_def connection_def join_document_def cursor_position_def
      checkDocumentAccess_def set_add_def Let_def)

text \<open>
  C7 at a failing input: in \<open>alice_joined\<close>, socket 2 (mallory) has
  no current document, is not a member of D1, and the access check denies her the view
  tier. Her \<^verbatim>\<open>cursor-position\<close> for D1 still stores a cursor entry and emits
  \<^verbatim>\<open>cursor-update\<close> to the room of D1.
\<close>

theorem cursor_position_ignores_access:
  "currentDocument (sockets alice_joined 2) = None
   \<and> members alice_joined ''D1'' = [''alice'']
   \<and> userId (sockets alice_joined 2) = ''mallory''
   \<and> checkDocumentAccess (documents alice_joined) 0 ''mallory'' ''D1'' ''org2'' ''view''
       = NoAccess ''Document not found''
   \<and> map_option (\<lambda>cs. cs ''mallory'') (userCursors alice_joined ''D1'') = Some None
   \<and> map_option (\<lambda>cs. cs ''mallory'')
        (userCursors (fst (cursor_position 2 ''D1'' (Some 7) alice_joined)) ''D1'')
       = Some (Some 7)
   \<and> snd (cursor_position 2 ''D1'' (Some 7) alice_joined)
       = [(ToRoom ''D1'' 2, CursorUpdate ''mallory'' 7)]"
  by (simp add: alice_joined_def members_def initial_def alice_docs_def doc_of_def
      two_sockets_def connection_def join_document_def cursor_position_def
      checkDocumentAccess_def set_add_def Let_def)

text \<open>
  C6 at a failing input: alice joins D1, sets her cursor there, then joins D2. After the
  second join she is a member of both D1 and D2, her cursor entry for D1 is still there, her
  socket is still in the room of D1, and the join emitted no \<^verbatim>\<open>user-left\<close>. A
  \<^verbatim>\<open>leave-document\<close> for D1 that follows is ignored, since the current document is D2, and
  the \<^verbatim>\<open>disconnect\<close> after it cleans up D2 only: alice is still a member of D1.
\<close>

theorem second_join_keeps_first_membership:
  "members (run 0 [Connection 1, JoinDocument 1 ''D1'', CursorPosition 1 ''D1'' (Some 3),
                   JoinDocument 1 ''D2''] (initial alice_docs Map.empty)) ''D1'' = [''alice'']
   \<and> members (run 0 [Connection 1, JoinDocument 1 ''D1'', CursorPosition 1 ''D1'' (Some 3),
                   JoinDocument 1 ''D2''] (initial alice_docs Map.empty)) ''D2'' = [''alice'']
   \<and> map_option (\<lambda>cs. cs ''alice'')
        (userCursors (run 0 [Connection 1, JoinDocument 1 ''D1'',
                   CursorPosition 1 ''D1'' (Some 3), JoinDocument 1 ''D2'']
                   (initial alice_docs Map.empty)) ''D1'') = Some (Some 3)
   \<and> rooms (sockets (run 0 [Connection 1, JoinDocument 1 ''D1'',
                   CursorPosition 1 ''D1'' (Some 3), JoinDocument 1 ''D2'']
                   (initial alice_docs Map.empty)) 1) = {''D1'', ''D2''}
   \<and> filter (\<lambda>e. is_UserLeft (snd e))
        (snd (join_document 0 1 ''D2''
           (run 0 [Connection 1, JoinDocument 1 ''D1'', CursorPosition 1 ''D1'' (Some 3)]
              (initial alice_docs Map.empty)))) = []
   \<and> members (run 0 [Connection 1, JoinDocument 1 ''D1'', CursorPosition 1 ''D1'' (Some 3),
                   JoinDocument 1 ''D2'', LeaveDocument 1 ''D1'', Disconnect 1]
                   (initial alice_docs Map.empty)) ''D1'' = [''alice'']"
  by (simp add: members_def leave_document_def disconnect_def remove_from_session_def initial_def alice_docs_def doc_of_def two_sockets_def
      connection_def join_document_def cursor_position_def checkDocumentAccess_def
      set_add_def Let_def List.map_filter_simps insert_commute)

text \<open>
  The same for every state: a granted \<^verbatim>\<open>join-document\<close> for D2 from a connection whose
  current document is another document D1 leaves the member list and the cursor map of D1
  as they were, keeps the socket in the room of D1 and emits no \<^verbatim>\<open>user-left\<close>, while it
  makes D2 the connection's current document and the user a member of D2.
\<close>

lemma join_does_not_leave_previous:
  assumes "d2 \<noteq> []"
    and "checkDocumentAccess (documents st) now (userId (sockets st k)) d2
           (organizationId (sockets st k)) ''view'' = HasAccess d role perm"
    and "currentDocument (sockets st k) = Some d1" and "d1 \<noteq> d2"
    and "userId (sockets st k) \<in> set (members st d1)"
    and "d1 \<in> rooms (sockets st k)"
  shows "documentSessions (fst (join_document now k d2 st)) d1 = documentSessions st d1
       \<and> userCursors (fst (join_document now k d2 st)) d1 = userCursors st d1
       \<and> userId (sockets st k) \<in> set (members (fst (join_document now k d2 st)) d1)
       \<and> userId (sockets st k) \<in> set (members (fst (join_document now k d2 st)) d2)
       \<and> d1 \<in> rooms (sockets (fst (join_document now k d2 st)) k)
       \<and> currentDocument (sockets (fst (join_document now k d2 st)) k) = Some d2
       \<and> filter (\<lambda>e. is_UserLeft (snd e)) (snd (join_document now k d2 st)) = []"
  using assms
  by (simp add: join_document_def members_def set_add_def Let_def)

lemma join_does_not_leave_previous_example:
  "documentSessions (fst (join_document 0 1 ''D2'' alice_joined)) ''D1''
     = documentSessions alice_joined ''D1''
   \<and> userCursors (fst (join_document 0 1 ''D2'' alice_joined)) ''D1''
     = userCursors alice_joined ''D1''
   \<and> userId (sockets alice_joined 1)
       \<in> set (members (fst (join_document 0 1 ''D2'' alice_joined)) ''D1'')
   \<and> userId (sockets alice_joined 1)
       \<in> set (members (fst (join_document 0 1 ''D2'' alice_joined)) ''D2'')
   \<and> ''D1'' \<in> rooms (sockets (fst (join_document 0 1 ''D2'' alice_joined)) 1)
   \<and> currentDocument (sockets (fst (join_document 0 1 ''D2'' alice_joined)) 1) = Some ''D2''
   \<and> filter (\<lambda>e. is_UserLeft (snd e)) (snd (join_document 0 1 ''D2'' alice_joined)) = []"
proof -
  have a: "checkDocumentAccess (documents alice_joined) 0 (userId (sockets alice_joined 1))
             ''D2'' (organizationId (sockets alice_joined 1)) ''view''
           = HasAccess (doc_of ''alice'' ''xyz'' 1) ''owner'' None"
    and c: "currentDocument (sockets alice_joined 1) = Some ''D1''"
    and m: "userId (sockets alice_joined 1) \<in> set (members alice_joined ''D1'')"
    and r: "''D1'' \<in> rooms (sockets alice_joined 1)"
    by (simp_all add: alice_joined_def initial_def alice_docs_def doc_of_def two_sockets_def
        connection_def join_document_def checkDocumentAccess_def set_add_def members_def
        Let_def)
  have ne: "''D2'' \<noteq> []" and dd: "''D1'' \<noteq> ''D2''" by simp_all
  show ?thesis by (rule join_does_not_leave_previous [OF ne a c dd m r])
qed


section \<open>The presence invariant away from stray cursor events\<close>

lemma mem_members:
  "u \<in> set (members st d) \<longleftrightarrow> (\<exists>ms. documentSessions st d = Some ms \<and> u \<in> set ms)"
  by (cases "documentSessions st d") (simp_all add: members_def)

lemma cursors_within_members_iff:
  "cursors_within_members st d
   \<longleftrightarrow> (\<forall>cs u p. userCursors st d = Some cs \<longrightarrow> cs u = Some p \<longrightarrow>
          (\<exists>ms. documentSessions st d = Some ms \<and> u \<in> set ms))"
  unfolding mem_members[symmetric]
  by (cases "userCursors st d") (auto simp: cursors_within_members_def)

lemma presence_connection:
  "cursors_within_members st d \<Longrightarrow> cursors_within_members (fst (connection k st)) d"
  by (simp add: connection_def cursors_within_members_iff)

lemma presence_join:
  "cursors_within_members st d \<Longrightarrow> cursors_within_members (fst (join_document now k d2 st)) d"
proof (cases "checkDocumentAccess (documents st) now (userId (sockets st k)) d2
               (organizationId (sockets st k)) ''view''")
  case (NoAccess err)
  assume "cursors_within_members st d"
  then show ?thesis using NoAccess by (simp add: join_document_def Let_def)
next
  case (HasAccess doc role perm)
  assume a: "cursors_within_members st d"
  show ?thesis
  proof (cases "d2 = []")
    case True
    then show ?thesis using a by (simp add: join_document_def Let_def)
  next
    case False
    show ?thesis
    proof (cases "documentSessions st d2")
      case None
      then show ?thesis using a False HasAccess
        by (auto simp: cursors_within_members_iff join_document_def Let_def members_def
            set_add_def split: option.splits)
    next
      case (Some ms)
      then show ?thesis using a False HasAccess
        by (auto simp: cursors_within_members_iff join_document_def Let_def members_def
            set_add_def split: option.splits)
    qed
  qed
qed

lemma presence_remove_from_session:
  "cursors_within_members st d \<Longrightarrow> cursors_within_members (remove_from_session u d1 st) d"
proof (cases "documentSessions st d1")
  case None
  assume "cursors_within_members st d"
  then show ?thesis using None
    by (auto simp: cursors_within_members_iff remove_from_session_def Let_def
        split: option.splits if_splits)
next
  case (Some ms)
  assume "cursors_within_members st d"
  then show ?thesis using Some
    by (auto simp: cursors_within_members_iff remove_from_session_def Let_def
        split: option.splits if_splits)
qed

lemma presence_sockets_update:
  "cursors_within_members (st\<lparr>sockets := f\<rparr>) d = cursors_within_members st d"
  by (simp add: cursors_within_members_iff)

lemma presence_leave:
  "cursors_within_members st d \<Longrightarrow> cursors_within_members (fst (leave_document k d1 st)) d"
  by (simp add: leave_document_def Let_def presence_sockets_update presence_remove_from_session)

lemma presence_disconnect:
  "cursors_within_members st d \<Longrightarrow> cursors_within_members (fst (disconnect k st)) d"
proof -
  assume a: "cursors_within_members st d"
  let ?st0 = "st\<lparr>activeConnections := (activeConnections st)(userId (sockets st k) := None),
                   sockets := (sockets st)(k := (sockets st k)\<lparr>rooms := {}\<rparr>)\<rparr>"
  have b: "cursors_within_members ?st0 d" using a by (simp add: cursors_within_members_iff)
  show ?thesis
    using b presence_remove_from_session[OF b]
    by (simp add: disconnect_def Let_def split: option.splits)
qed

lemma presence_cursor_of_member:
  "cursors_within_members st d \<Longrightarrow> userId (sockets st k) \<in> set (members st d1) \<Longrightarrow>
   cursors_within_members (fst (cursor_position k d1 p st)) d"
  unfolding cursors_within_members_iff mem_members
  by (auto simp: cursor_position_def split: option.splits if_splits)

text \<open>
  With the cursor events restricted to members, every run of connection, join, cursor,
  leave and disconnect events keeps the cursor entries of every document within its members.
\<close>

lemma presence_kept_when_cursors_from_members:
  "\<forall>d. cursors_within_members st d \<Longrightarrow> cursors_from_members now es st \<Longrightarrow>
   \<forall>d. cursors_within_members (run now es st) d"
proof (induction es arbitrary: st)
  case Nil
  then show ?case by simp
next
  case (Cons e es)
  have step: "\<forall>d. cursors_within_members (fst (handle now e st)) d"
  proof (cases e)
    case (Connection k)
    then show ?thesis using Cons.prems(1) by (simp add: presence_connection)
  next
    case (JoinDocument k d2)
    then show ?thesis using Cons.prems(1) by (simp add: presence_join)
  next
    case (CursorPosition k d1 p)
    then show ?thesis using Cons.prems by (simp add: presence_cursor_of_member)
  next
    case (LeaveDocument k d1)
    then show ?thesis using Cons.prems(1) by (simp add: presence_leave)
  next
    case (Disconnect k)
    then show ?thesis using Cons.prems(1) by (simp add: presence_disconnect)
  qed
  from Cons.prems(2) have rest: "cursors_from_members now es (fst (handle now e st))" by simp
  from Cons.IH[OF step rest] show ?case by simp
qed

lemma presence_initial: "cursors_within_members (initial docs queue) d"
  by (simp add: cursors_within_members_def initial_def)

end
